theory Spec2Isabelle
  imports Main
begin

section \<open>Values and the unprotected circular buffer\<close>

text \<open>
  The buffers hold \<^verbatim>\<open>void *\<close> values. A pointer is modelled by its address, a
  natural number; \<^verbatim>\<open>NULL\<close> is address 0.
\<close>

type_synonym ptr = nat

abbreviation (input) NULL :: ptr where
  "NULL \<equiv> 0"

text \<open>
  Modelled from the spec: \<^verbatim>\<open>circular_buffer.c\<close> is not among the sources. The spec
  describes the RingStore as a fixed-capacity circular array with a logical count, head
  and tail indices and a slot array, whose put fails when the store is full and whose get
  fails when it is empty. The callers test \<^verbatim>\<open>circular_buffer_put(..) == 0\<close> and
  \<^verbatim>\<open>circular_buffer_get(..) == NULL\<close> for these failures.
\<close>

record circular_buffer_t =
  cb_capacity :: nat
  cb_count :: nat
  cb_head :: nat
  cb_tail :: nat
  cb_slots :: "ptr list"

text \<open>Modelled from the spec: a new store of capacity \<open>n\<close> holds no element.\<close>

definition circular_buffer_init :: "nat \<Rightarrow> circular_buffer_t" where
  "circular_buffer_init n =
     \<lparr>cb_capacity = n, cb_count = 0, cb_head = 0, cb_tail = 0, cb_slots = replicate n NULL\<rparr>"

text \<open>
  Modelled from the spec: put fails, returning 0, when the store is full; otherwise it
  writes \<open>d\<close> at the tail index, advances the index round the array and returns 1.
\<close>

definition circular_buffer_put :: "circular_buffer_t \<Rightarrow> ptr \<Rightarrow> int \<times> circular_buffer_t" where
  "circular_buffer_put b d =
     (if cb_count b = cb_capacity b then (0, b)
      else (1, b\<lparr>cb_slots := (cb_slots b)[cb_tail b := d],
                 cb_tail := (cb_tail b + 1) mod cb_capacity b,
                 cb_count := cb_count b + 1\<rparr>))"

text \<open>
  Modelled from the spec: get fails, returning \<^verbatim>\<open>NULL\<close>, when the store is empty;
  otherwise it returns the element at the head index and advances the index round the array.
\<close>

definition circular_buffer_get :: "circular_buffer_t \<Rightarrow> ptr \<times> circular_buffer_t" where
  "circular_buffer_get b =
     (if cb_count b = 0 then (NULL, b)
      else (cb_slots b ! cb_head b,
            b\<lparr>cb_head := (cb_head b + 1) mod cb_capacity b,
              cb_count := cb_count b - 1\<rparr>))"

text \<open>The elements a store holds, oldest first.\<close>

definition cb_contents :: "circular_buffer_t \<Rightarrow> ptr list" where
  "cb_contents b =
     map (\<lambda>i. cb_slots b ! ((cb_head b + i) mod cb_capacity b)) [0..<cb_count b]"

text \<open>
  The states of a store of capacity above 0 that its own operations reach from
  \<open>circular_buffer_init\<close>.
\<close>

definition cb_wf :: "circular_buffer_t \<Rightarrow> bool" where
  "cb_wf b =
     (0 < cb_capacity b \<and> length (cb_slots b) = cb_capacity b \<and>
      cb_head b < cb_capacity b \<and> cb_count b \<le> cb_capacity b \<and>
      cb_tail b = (cb_head b + cb_count b) mod cb_capacity b)"

section \<open>The protected buffer\<close>

text \<open>
  \<^verbatim>\<open>protected_buffer.h\<close> is not among the sources; the record has the fields the two
  implementations use. The three semaphores are their values. The mutex \<^verbatim>\<open>m\<close> and
  the condition variables \<^verbatim>\<open>empty\<close> and \<^verbatim>\<open>full\<close> keep no value between calls:
  the field \<open>calls\<close> records, in order, the pthread calls made on them.
\<close>

datatype 'c pthread_call = Lock | Unlock | Wait 'c | Timedwait 'c | Broadcast 'c

datatype buffer_cond = Empty | Full

record protected_buffer_t =
  sem_impl :: bool
  buffer :: circular_buffer_t
  s_m :: nat
  s_full :: nat
  s_empty :: nat
  calls :: "buffer_cond pthread_call list"

subsection \<open>Semaphores\<close>

text \<open>
  A call is modelled as it runs when no other thread touches the buffer meanwhile. A
  \<^verbatim>\<open>sem_wait\<close> that finds the value 0 then never returns: the result is \<open>None\<close>.
  \<^verbatim>\<open>sem_trywait\<close> returns -1 at once, and \<^verbatim>\<open>sem_timedwait\<close> returns -1 when the
  deadline is reached (at once if it has passed); both leave the value unchanged.
\<close>

definition sem_wait :: "nat \<Rightarrow> nat option" where
  "sem_wait s = (if 0 < s then Some (s - 1) else None)"

definition sem_trywait :: "nat \<Rightarrow> int \<times> nat" where
  "sem_trywait s = (if 0 < s then (0, s - 1) else (- 1, s))"

definition sem_timedwait :: "nat \<Rightarrow> nat \<Rightarrow> int \<times> nat" where
  "sem_timedwait s abstime = (if 0 < s then (0, s - 1) else (- 1, s))"

definition sem_post :: "nat \<Rightarrow> nat" where
  "sem_post s = s + 1"

subsection \<open>The implementation with semaphores (\<^verbatim>\<open>sem_protected_buffer.c\<close>)\<close>

text \<open>
  \<^verbatim>\<open>malloc\<close> returns a block of indeterminate content: the initialisers take it as
  \<open>blk\<close> and set the fields the source sets.
\<close>

definition sem_protected_buffer_init :: "protected_buffer_t \<Rightarrow> nat \<Rightarrow> protected_buffer_t" where
  "sem_protected_buffer_init blk length' =
     blk\<lparr>buffer := circular_buffer_init length', s_m := 1, s_full := 0, s_empty := length'\<rparr>"

definition sem_protected_buffer_get :: "protected_buffer_t \<Rightarrow> (ptr \<times> protected_buffer_t) option" where
  "sem_protected_buffer_get b =
     (case sem_wait (s_full b) of
        None \<Rightarrow> None
      | Some v \<Rightarrow>
          (case sem_wait (s_m b) of
             None \<Rightarrow> None
           | Some v' \<Rightarrow>
               (let (d, r) = circular_buffer_get (buffer b)
                in Some (d, b\<lparr>buffer := r, s_full := v, s_m := sem_post v',
                               s_empty := sem_post (s_empty b)\<rparr>))))"

definition sem_protected_buffer_put :: "protected_buffer_t \<Rightarrow> ptr \<Rightarrow> protected_buffer_t option" where
  "sem_protected_buffer_put b d =
     (case sem_wait (s_empty b) of
        None \<Rightarrow> None
      | Some v \<Rightarrow>
          (case sem_wait (s_m b) of
             None \<Rightarrow> None
           | Some v' \<Rightarrow>
               (let (rc, r) = circular_buffer_put (buffer b) d
                in Some (b\<lparr>buffer := r, s_empty := v, s_m := sem_post v',
                            s_full := sem_post (s_full b)\<rparr>))))"

definition sem_protected_buffer_remove :: "protected_buffer_t \<Rightarrow> ptr \<times> protected_buffer_t" where
  "sem_protected_buffer_remove b =
     (let (rc, v) = sem_trywait (s_full b)
      in if rc \<noteq> 0 then (NULL, b)
         else
           (let (rc', v') = sem_trywait (s_m b);
                (d, r) = circular_buffer_get (buffer b)
            in (d, b\<lparr>buffer := r, s_full := v, s_m := sem_post v',
                     s_empty := sem_post (s_empty b)\<rparr>)))"

text \<open>
  The source of \<^verbatim>\<open>sem_protected_buffer_add\<close> ends with two calls
  \<^verbatim>\<open>sem_post(&(b->s_m))\<close>; it never posts \<^verbatim>\<open>s_full\<close>.
\<close>

definition sem_protected_buffer_add :: "protected_buffer_t \<Rightarrow> ptr \<Rightarrow> int \<times> protected_buffer_t" where
  "sem_protected_buffer_add b d =
     (let (rc, v) = sem_trywait (s_empty b)
      in if rc \<noteq> 0 then (0, b)
         else
           (let (rc', v') = sem_trywait (s_m b);
                (done, r) = circular_buffer_put (buffer b) d
            in (1, b\<lparr>buffer := r, s_empty := v, s_m := sem_post (sem_post v')\<rparr>)))"

definition sem_protected_buffer_poll ::
  "protected_buffer_t \<Rightarrow> nat \<Rightarrow> (ptr \<times> protected_buffer_t) option" where
  "sem_protected_buffer_poll b abstime =
     (let (rc, v) = sem_timedwait (s_full b) abstime
      in if rc \<noteq> 0 then Some (NULL, b)
         else
           (case sem_wait (s_m b) of
              None \<Rightarrow> None
            | Some v' \<Rightarrow>
                (let (d, r) = circular_buffer_get (buffer b)
                 in Some (d, b\<lparr>buffer := r, s_full := v, s_m := sem_post v',
                                s_empty := sem_post (s_empty b)\<rparr>))))"

definition sem_protected_buffer_offer ::
  "protected_buffer_t \<Rightarrow> ptr \<Rightarrow> nat \<Rightarrow> (int \<times> protected_buffer_t) option" where
  "sem_protected_buffer_offer b d abstime =
     (let (rc, v) = sem_timedwait (s_empty b) abstime
      in if rc \<noteq> 0 then Some (0, b)
         else
           (case sem_wait (s_m b) of
              None \<Rightarrow> None
            | Some v' \<Rightarrow>
                (let (done, r) = circular_buffer_put (buffer b) d
                 in Some (1, b\<lparr>buffer := r, s_empty := v, s_m := sem_post v',
                                s_full := sem_post (s_full b)\<rparr>))))"

subsection \<open>The implementation with a mutex and condition variables (\<^verbatim>\<open>cond_protected_buffer.c\<close>)\<close>

text \<open>
  A thread that waits on a condition variable releases the mutex, and other threads change
  the store before it runs again. What they do is an input of the model: the list \<open>env\<close>
  gives, for each wait of the caller in turn, the time at which the wait returns and the
  store the caller finds then. A \<^verbatim>\<open>pthread_cond_timedwait\<close> returns \<^verbatim>\<open>ETIMEDOUT\<close>
  when the deadline \<open>abstime\<close> has passed at the time \<open>now\<close> of the call or at the time
  the wait returns, and 0 otherwise; in both cases the caller has the store the other threads
  left. When the list is exhausted the other threads do nothing any more: a
  \<^verbatim>\<open>pthread_cond_wait\<close> never returns (the result is \<open>None\<close>), and a
  \<^verbatim>\<open>pthread_cond_timedwait\<close> returns \<^verbatim>\<open>ETIMEDOUT\<close> with the store unchanged.
\<close>

type_synonym wakeup = "nat \<times> circular_buffer_t"

definition ETIMEDOUT :: int where
  "ETIMEDOUT = 110"

definition cond_protected_buffer_init :: "protected_buffer_t \<Rightarrow> nat \<Rightarrow> protected_buffer_t" where
  "cond_protected_buffer_init blk length' =
     blk\<lparr>buffer := circular_buffer_init length', calls := []\<rparr>"

text \<open>The loop \<^verbatim>\<open>while ((d = circular_buffer_get(b->buffer)) == NULL)\<close> of get.\<close>

fun get_loop :: "wakeup list \<Rightarrow> protected_buffer_t \<Rightarrow> (ptr \<times> protected_buffer_t) option" where
  "get_loop [] b =
     (let (d, r) = circular_buffer_get (buffer b)
      in if d = NULL then None else Some (d, b\<lparr>buffer := r\<rparr>))"
| "get_loop (w # env) b =
     (let (d, r) = circular_buffer_get (buffer b)
      in if d = NULL
         then get_loop env (b\<lparr>buffer := snd w, calls := calls b @ [Wait Full]\<rparr>)
         else Some (d, b\<lparr>buffer := r\<rparr>))"

definition cond_protected_buffer_get ::
  "wakeup list \<Rightarrow> protected_buffer_t \<Rightarrow> (ptr \<times> protected_buffer_t) option" where
  "cond_protected_buffer_get env b =
     (case get_loop env (b\<lparr>calls := calls b @ [Lock]\<rparr>) of
        None \<Rightarrow> None
      | Some (d, b1) \<Rightarrow> Some (d, b1\<lparr>calls := calls b1 @ [Broadcast Empty, Unlock]\<rparr>))"

text \<open>The loop \<^verbatim>\<open>while (circular_buffer_put(b->buffer, d) == 0)\<close> of put.\<close>

fun put_loop :: "wakeup list \<Rightarrow> protected_buffer_t \<Rightarrow> ptr \<Rightarrow> protected_buffer_t option" where
  "put_loop [] b d =
     (let (rc, r) = circular_buffer_put (buffer b) d
      in if rc = 0 then None else Some (b\<lparr>buffer := r\<rparr>))"
| "put_loop (w # env) b d =
     (let (rc, r) = circular_buffer_put (buffer b) d
      in if rc = 0
         then put_loop env (b\<lparr>buffer := snd w, calls := calls b @ [Wait Empty]\<rparr>) d
         else Some (b\<lparr>buffer := r\<rparr>))"

text \<open>
  After the loop, which ends once \<^verbatim>\<open>circular_buffer_put\<close> has stored \<open>d\<close>, the source
  broadcasts and then calls \<^verbatim>\<open>circular_buffer_put(b->buffer, d)\<close> once more, ignoring
  its result.
\<close>

definition cond_protected_buffer_put ::
  "wakeup list \<Rightarrow> protected_buffer_t \<Rightarrow> ptr \<Rightarrow> protected_buffer_t option" where
  "cond_protected_buffer_put env b d =
     (case put_loop env (b\<lparr>calls := calls b @ [Lock]\<rparr>) d of
        None \<Rightarrow> None
      | Some b1 \<Rightarrow>
          (let (rc, r) = circular_buffer_put (buffer b1) d
           in Some (b1\<lparr>buffer := r, calls := calls b1 @ [Broadcast Full, Unlock]\<rparr>)))"

definition cond_protected_buffer_remove :: "protected_buffer_t \<Rightarrow> ptr \<times> protected_buffer_t" where
  "cond_protected_buffer_remove b =
     (let (d, r) = circular_buffer_get (buffer b)
      in (d, b\<lparr>buffer := r,
               calls := calls b @ [Lock] @ (if d \<noteq> NULL then [Broadcast Empty] else []) @ [Unlock]\<rparr>))"

definition cond_protected_buffer_add :: "protected_buffer_t \<Rightarrow> ptr \<Rightarrow> int \<times> protected_buffer_t" where
  "cond_protected_buffer_add b d =
     (let (done, r) = circular_buffer_put (buffer b) d
      in (done, b\<lparr>buffer := r, calls := calls b @ [Lock, Broadcast Full, Unlock]\<rparr>))"

text \<open>
  The loop of poll; it returns the element, the last value of \<^verbatim>\<open>rc\<close> and the buffer.
  The source waits on \<^verbatim>\<open>b->empty\<close> here. On \<^verbatim>\<open>ETIMEDOUT\<close> it leaves the loop
  without reading the store again.
\<close>

fun poll_loop ::
  "wakeup list \<Rightarrow> nat \<Rightarrow> nat \<Rightarrow> int \<Rightarrow> protected_buffer_t \<Rightarrow> ptr \<times> int \<times> protected_buffer_t" where
  "poll_loop [] abstime now rc b =
     (let (d, r) = circular_buffer_get (buffer b)
      in if d = NULL
         then (d, ETIMEDOUT, b\<lparr>buffer := r, calls := calls b @ [Timedwait Empty]\<rparr>)
         else (d, rc, b\<lparr>buffer := r\<rparr>))"
| "poll_loop (w # env) abstime now rc b =
     (let (d, r) = circular_buffer_get (buffer b)
      in if d = NULL
         then (if abstime \<le> now \<or> abstime \<le> fst w
               then (d, ETIMEDOUT, b\<lparr>buffer := snd w, calls := calls b @ [Timedwait Empty]\<rparr>)
               else poll_loop env abstime (fst w) 0
                      (b\<lparr>buffer := snd w, calls := calls b @ [Timedwait Empty]\<rparr>))
         else (d, rc, b\<lparr>buffer := r\<rparr>))"

definition cond_protected_buffer_poll ::
  "wakeup list \<Rightarrow> nat \<Rightarrow> protected_buffer_t \<Rightarrow> nat \<Rightarrow> ptr \<times> protected_buffer_t" where
  "cond_protected_buffer_poll env now b abstime =
     (let (d, rc, b1) = poll_loop env abstime now 0 (b\<lparr>calls := calls b @ [Lock]\<rparr>)
      in (d, b1\<lparr>calls := calls b1 @ (if rc \<noteq> ETIMEDOUT then [Broadcast Empty] else []) @ [Unlock]\<rparr>))"

text \<open>
  The loop of offer; it returns \<^verbatim>\<open>done\<close>, the last value of \<^verbatim>\<open>rc\<close> and the buffer.
  The source waits on \<^verbatim>\<open>b->full\<close> here, and broadcasts \<^verbatim>\<open>b->empty\<close> afterwards.
  On \<^verbatim>\<open>ETIMEDOUT\<close> it leaves the loop without trying the store again.
\<close>

fun offer_loop ::
  "wakeup list \<Rightarrow> nat \<Rightarrow> nat \<Rightarrow> int \<Rightarrow> protected_buffer_t \<Rightarrow> ptr \<Rightarrow> int \<times> int \<times> protected_buffer_t" where
  "offer_loop [] abstime now rc b d =
     (let (done, r) = circular_buffer_put (buffer b) d
      in if done = 0
         then (done, ETIMEDOUT, b\<lparr>buffer := r, calls := calls b @ [Timedwait Full]\<rparr>)
         else (done, rc, b\<lparr>buffer := r\<rparr>))"
| "offer_loop (w # env) abstime now rc b d =
     (let (done, r) = circular_buffer_put (buffer b) d
      in if done = 0
         then (if abstime \<le> now \<or> abstime \<le> fst w
               then (done, ETIMEDOUT, b\<lparr>buffer := snd w, calls := calls b @ [Timedwait Full]\<rparr>)
               else offer_loop env abstime (fst w) 0
                      (b\<lparr>buffer := snd w, calls := calls b @ [Timedwait Full]\<rparr>) d)
         else (done, rc, b\<lparr>buffer := r\<rparr>))"

definition cond_protected_buffer_offer ::
  "wakeup list \<Rightarrow> nat \<Rightarrow> protected_buffer_t \<Rightarrow> ptr \<Rightarrow> nat \<Rightarrow> int \<times> protected_buffer_t" where
  "cond_protected_buffer_offer env now b d abstime =
     (let (done, rc, b1) = offer_loop env abstime now 0 (b\<lparr>calls := calls b @ [Lock]\<rparr>) d
      in (done, b1\<lparr>calls := calls b1 @ (if rc \<noteq> ETIMEDOUT then [Broadcast Empty] else []) @ [Unlock]\<rparr>))"

text \<open>
  Modelled from the spec: \<^verbatim>\<open>protected_buffer.c\<close> is not among the sources. The spec
  has the two strategies behind one interface, and \<^verbatim>\<open>executor_init\<close> selects the
  one with condition variables by passing 0 as the first argument \<^verbatim>\<open>sem_impl\<close>.
\<close>

definition protected_buffer_init :: "protected_buffer_t \<Rightarrow> bool \<Rightarrow> nat \<Rightarrow> protected_buffer_t" where
  "protected_buffer_init blk impl length' =
     (if impl then sem_protected_buffer_init blk length'
      else cond_protected_buffer_init blk length')\<lparr>sem_impl := impl\<rparr>"

text \<open>Modelled from the spec: the blocking get of the strategy the buffer was made with.\<close>

definition protected_buffer_get ::
  "wakeup list \<Rightarrow> protected_buffer_t \<Rightarrow> (ptr \<times> protected_buffer_t) option" where
  "protected_buffer_get env b =
     (if sem_impl b then sem_protected_buffer_get b else cond_protected_buffer_get env b)"

text \<open>Modelled from the spec: the non-blocking remove of the buffer's strategy.\<close>

definition protected_buffer_remove :: "protected_buffer_t \<Rightarrow> ptr \<times> protected_buffer_t" where
  "protected_buffer_remove b =
     (if sem_impl b then sem_protected_buffer_remove b else cond_protected_buffer_remove b)"

text \<open>Modelled from the spec: the non-blocking add of the buffer's strategy.\<close>

definition protected_buffer_add :: "protected_buffer_t \<Rightarrow> ptr \<Rightarrow> int \<times> protected_buffer_t" where
  "protected_buffer_add b d =
     (if sem_impl b then sem_protected_buffer_add b d else cond_protected_buffer_add b d)"

text \<open>Modelled from the spec: the timed poll of the buffer's strategy.\<close>

definition protected_buffer_poll ::
  "wakeup list \<Rightarrow> nat \<Rightarrow> protected_buffer_t \<Rightarrow> nat \<Rightarrow> (ptr \<times> protected_buffer_t) option" where
  "protected_buffer_poll env now b abstime =
     (if sem_impl b then sem_protected_buffer_poll b abstime
      else Some (cond_protected_buffer_poll env now b abstime))"

section \<open>The thread pool (\<^verbatim>\<open>thread_pool.c\<close>)\<close>


definition int32 :: "int \<Rightarrow> int" where
  "int32 x = (x + 2147483648) mod 4294967296 - 2147483648"

record thread_pool_t =
  core_pool_size :: int
  max_pool_size :: int
  size_tp :: int
  shutdown :: int
  pool_calls :: "unit pthread_call list"

definition thread_pool_init :: "thread_pool_t \<Rightarrow> int \<Rightarrow> int \<Rightarrow> thread_pool_t" where
  "thread_pool_init blk core mx =
     blk\<lparr>core_pool_size := core, max_pool_size := mx, size_tp := 0, pool_calls := []\<rparr>"

text \<open>
  Every thread of the pool runs \<^verbatim>\<open>main_pool_thread\<close>. The threads started so far are
  a list of the arguments \<^verbatim>\<open>pthread_create\<close> passed them.
\<close>

definition pool_thread_create ::
  "thread_pool_t \<Rightarrow> ptr \<Rightarrow> int \<Rightarrow> ptr list \<Rightarrow> int \<times> thread_pool_t \<times> ptr list" where
  "pool_thread_create tp future force threads =
     (if size_tp tp < core_pool_size tp
      then (1, tp\<lparr>size_tp := int32 (size_tp tp + 1),
                   pool_calls := pool_calls tp @ [Lock, Unlock]\<rparr>,
            threads @ [future])
      else if force \<noteq> 0 \<and> size_tp tp < max_pool_size tp
      then (1, tp\<lparr>size_tp := int32 (size_tp tp + 1),
                   pool_calls := pool_calls tp @ [Lock, Unlock]\<rparr>,
            threads @ [future])
      else (0, tp\<lparr>pool_calls := pool_calls tp @ [Lock, Unlock]\<rparr>, threads))"

definition thread_pool_shutdown :: "thread_pool_t \<Rightarrow> thread_pool_t" where
  "thread_pool_shutdown tp = tp\<lparr>shutdown := 1\<rparr>"

text \<open>\<^verbatim>\<open>done\<close> is initialised to 1 and never assigned again.\<close>

definition pool_thread_remove :: "thread_pool_t \<Rightarrow> int \<times> thread_pool_t" where
  "pool_thread_remove tp =
     (let tp1 = (if size_tp tp > core_pool_size tp
                 then tp\<lparr>size_tp := int32 (size_tp tp - 1)\<rparr> else tp);
          tp2 = (if shutdown tp1 \<noteq> 0
                 then tp1\<lparr>size_tp := int32 (size_tp tp1 - 1)\<rparr> else tp1)
      in (1, tp2\<lparr>pool_calls := pool_calls tp2 @ [Lock] @
                    (if size_tp tp2 = 0 then [Broadcast ()] else []) @ [Unlock]\<rparr>))"

text \<open>
  The loop of \<^verbatim>\<open>wait_thread_pool_empty\<close>. \<open>env\<close> lists the value of \<^verbatim>\<open>size\<close> the
  caller finds at each wake-up; when it is exhausted the wait never returns.
\<close>

fun wait_loop :: "int list \<Rightarrow> thread_pool_t \<Rightarrow> thread_pool_t option" where
  "wait_loop [] tp = (if size_tp tp \<noteq> 0 then None else Some tp)"
| "wait_loop (n # env) tp =
     (if size_tp tp \<noteq> 0
      then wait_loop env (tp\<lparr>size_tp := n, pool_calls := pool_calls tp @ [Wait ()]\<rparr>)
      else Some tp)"

definition wait_thread_pool_empty :: "int list \<Rightarrow> thread_pool_t \<Rightarrow> thread_pool_t option" where
  "wait_thread_pool_empty env tp =
     (case wait_loop env (tp\<lparr>pool_calls := pool_calls tp @ [Lock]\<rparr>) of
        None \<Rightarrow> None
      | Some tp1 \<Rightarrow> Some (tp1\<lparr>pool_calls := pool_calls tp1 @ [Unlock]\<rparr>))"

definition get_shutdown :: "thread_pool_t \<Rightarrow> int" where
  "get_shutdown tp = shutdown tp"








section \<open>The executor (\<^verbatim>\<open>executor.c\<close>)\<close>

text \<open>
  \<^verbatim>\<open>executor.h\<close> is not among the sources; the records have the fields the code
  uses. A callable's \<^verbatim>\<open>main\<close> is a function from its parameters to its result. Its
  \<^verbatim>\<open>executor\<close> field is the address of the executor. \<open>future_calls\<close> records the
  pthread calls on a future's mutex and condition variable.
\<close>

record callable_t =
  main :: "ptr \<Rightarrow> ptr"
  params :: ptr
  period :: int
  executor :: ptr

record future_t =
  callable :: callable_t
  completed :: int
  result :: ptr
  future_calls :: "unit pthread_call list"

record executor_t =
  keep_alive_time :: int
  thread_pool :: thread_pool_t
  futures :: protected_buffer_t

text \<open>
  The memory of the process: the executor, the futures allocated so far, by address, and
  the threads started so far.
\<close>

record process =
  exec :: executor_t
  heap :: "ptr \<Rightarrow> future_t option"
  threads :: "ptr list"

definition executor_init :: "executor_t \<Rightarrow> int \<Rightarrow> int \<Rightarrow> int \<Rightarrow> nat \<Rightarrow> executor_t" where
  "executor_init blk core_pool_size' max_pool_size' keep_alive_time' callable_array_size =
     blk\<lparr>keep_alive_time := keep_alive_time',
         thread_pool := thread_pool_init (thread_pool blk) core_pool_size' max_pool_size',
         futures := protected_buffer_init (futures blk) False callable_array_size\<rparr>"

text \<open>
  \<open>e\<close> is the address of the executor, and \<open>(a, blk)\<close> what \<^verbatim>\<open>malloc\<close> returns for
  the future: its address and its indeterminate content.
\<close>

definition submit_callable ::
  "ptr \<Rightarrow> ptr \<times> future_t \<Rightarrow> callable_t \<Rightarrow> process \<Rightarrow> ptr \<times> process" where
  "submit_callable e mem callable' p =
     (let (a, blk) = mem;
          future0 = blk\<lparr>callable := callable'\<lparr>executor := e\<rparr>, completed := 0, future_calls := []\<rparr>;
          p1 = p\<lparr>heap := (heap p)(a \<mapsto> future0)\<rparr>;
          (done, tp1, ths1) = pool_thread_create (thread_pool (exec p1)) a 0 (threads p1);
          p2 = p1\<lparr>exec := (exec p1)\<lparr>thread_pool := tp1\<rparr>, threads := ths1\<rparr>
      in if done \<noteq> 0 then (a, p2)
         else
           (let (added, q1) = protected_buffer_add (futures (exec p2)) a
            in if added = 1 then (a, p2\<lparr>exec := (exec p2)\<lparr>futures := q1\<rparr>\<rparr>)
               else
                 (let (first, q2) = protected_buffer_remove q1;
                      (future, q3) =
                        (if first \<noteq> NULL then (first, snd (protected_buffer_add q2 a))
                         else (a, q2));
                      (done', tp2, ths2) = pool_thread_create tp1 future 1 ths1
                  in (future, p2\<lparr>exec := (exec p2)\<lparr>futures := q3, thread_pool := tp2\<rparr>,
                                 threads := ths2\<rparr>))))"

text \<open>
  The pending queue of an executor as \<^verbatim>\<open>executor_init\<close> and \<^verbatim>\<open>submit_callable\<close>
  leave it when its capacity is above 0: the implementation with condition variables, a
  store in a state its operations reach, holding addresses of allocated futures.
\<close>

definition queue_ok :: "process \<Rightarrow> bool" where
  "queue_ok p =
     (\<not> sem_impl (futures (exec p)) \<and> cb_wf (buffer (futures (exec p))) \<and>
      list_all (\<lambda>f. f \<noteq> NULL \<and> heap p f \<noteq> None) (cb_contents (buffer (futures (exec p)))))"

text \<open>
  A future is scheduled when a thread of the pool was started on it or it is pending in
  the queue; a worker never sees any other future.
\<close>

definition scheduled :: "process \<Rightarrow> ptr \<Rightarrow> bool" where
  "scheduled p f =
     (f \<in> set (threads p) \<or> f \<in> set (cb_contents (buffer (futures (exec p)))))"

text \<open>
  The loop of \<^verbatim>\<open>get_callable_result\<close>. \<open>env\<close> lists the values of \<^verbatim>\<open>completed\<close>
  and \<^verbatim>\<open>result\<close> the caller finds at each wake-up; when it is exhausted the wait
  never returns.
\<close>

fun result_loop :: "(int \<times> ptr) list \<Rightarrow> future_t \<Rightarrow> future_t option" where
  "result_loop [] future = (if completed future = 0 then None else Some future)"
| "result_loop (w # env) future =
     (if completed future = 0
      then result_loop env (future\<lparr>completed := fst w, result := snd w,
                                   future_calls := future_calls future @ [Wait ()]\<rparr>)
      else Some future)"

definition get_callable_result :: "(int \<times> ptr) list \<Rightarrow> future_t \<Rightarrow> (ptr \<times> future_t) option" where
  "get_callable_result env future =
     (case result_loop env (future\<lparr>future_calls := future_calls future @ [Lock]\<rparr>) of
        None \<Rightarrow> None
      | Some f \<Rightarrow> Some (result f, f\<lparr>future_calls := future_calls f @ [Unlock]\<rparr>))"

text \<open>
  The inner loop \<^verbatim>\<open>while (1)\<close> of \<^verbatim>\<open>main_pool_thread\<close>, on the future the thread
  holds and the deadline \<^verbatim>\<open>ts_deadline\<close>, in milliseconds. \<open>reads\<close> lists what
  \<^verbatim>\<open>get_shutdown\<close> returns at each iteration in turn (another thread sets the flag); when
  it is exhausted the loop is still running, and the result is \<open>None\<close>.
\<close>

fun main_pool_thread_inner :: "int list \<Rightarrow> int \<Rightarrow> future_t \<Rightarrow> (future_t \<times> int) option" where
  "main_pool_thread_inner [] ts future =
     (let future1 = future\<lparr>result := main (callable future) (params (callable future))\<rparr>
      in if period (callable future) = 0
         then Some (future1\<lparr>future_calls := future_calls future1 @ [Broadcast ()],
                            completed := 1\<rparr>, ts)
         else None)"
| "main_pool_thread_inner (s # reads) ts future =
     (let future1 = future\<lparr>result := main (callable future) (params (callable future))\<rparr>
      in if period (callable future) = 0
         then Some (future1\<lparr>future_calls := future_calls future1 @ [Broadcast ()],
                            completed := 1\<rparr>, ts)
         else if s \<noteq> 0 then Some (future1, ts + period (callable future))
         else main_pool_thread_inner reads (ts + period (callable future)) future1)"

text \<open>
  The rest of the body of the outer loop of \<^verbatim>\<open>main_pool_thread\<close>: the thread fetches
  its next future. \<open>forever\<close> is the value of the macro \<^verbatim>\<open>FOREVER\<close>, \<open>now\<close> what
  \<^verbatim>\<open>gettimeofday\<close> returns, in milliseconds. The result is the future fetched, whether
  the thread leaves the loop by \<^verbatim>\<open>break\<close>, and the executor. The thread goes on with
  the future fetched if it is not \<^verbatim>\<open>NULL\<close>.
\<close>

definition main_pool_thread_fetch ::
  "int \<Rightarrow> wakeup list \<Rightarrow> nat \<Rightarrow> executor_t \<Rightarrow> (ptr \<times> bool \<times> executor_t) option" where
  "main_pool_thread_fetch forever env now x =
     (case (if keep_alive_time x = forever then protected_buffer_get env (futures x)
            else protected_buffer_poll env now (futures x) (nat (int now + keep_alive_time x))) of
        None \<Rightarrow> None
      | Some (future, q) \<Rightarrow>
          (if future = NULL
           then (let (done, tp) = pool_thread_remove (thread_pool x)
                 in Some (future, done \<noteq> 0, x\<lparr>futures := q, thread_pool := tp\<rparr>))
           else Some (future, False, x\<lparr>futures := q\<rparr>)))"

text \<open>
  \<^verbatim>\<open>executor_shutdown\<close>: between setting the flag and waiting, the source has the
  comment "Fill the queue of null futures to unblock potential threads" and no statement.
\<close>

definition executor_shutdown :: "int list \<Rightarrow> executor_t \<Rightarrow> executor_t option" where
  "executor_shutdown env x =
     (case wait_thread_pool_empty env (thread_pool_shutdown (thread_pool x)) of
        None \<Rightarrow> None
      | Some tp \<Rightarrow> Some (x\<lparr>thread_pool := tp\<rparr>))"

section \<open>Evaluation of the definitions\<close>

lemmas cb_defs =
  circular_buffer_init_def circular_buffer_put_def circular_buffer_get_def cb_contents_def

lemmas sem_defs = sem_wait_def sem_trywait_def sem_timedwait_def sem_post_def

lemmas sem_buffer_defs =
  sem_protected_buffer_init_def sem_protected_buffer_get_def sem_protected_buffer_put_def
  sem_protected_buffer_remove_def sem_protected_buffer_add_def sem_protected_buffer_poll_def
  sem_protected_buffer_offer_def

lemmas cond_buffer_defs =
  cond_protected_buffer_init_def cond_protected_buffer_get_def cond_protected_buffer_put_def
  cond_protected_buffer_remove_def cond_protected_buffer_add_def cond_protected_buffer_poll_def
  cond_protected_buffer_offer_def

lemmas protected_buffer_defs =
  protected_buffer_init_def protected_buffer_get_def protected_buffer_remove_def
  protected_buffer_add_def protected_buffer_poll_def

section \<open>The protected buffer: where the code leaves the specification\<close>

text \<open>
  C1. The claim: a call of the blocking put stores its value in the ring store exactly once,
  so that the elements removed are the elements inserted, none lost and none duplicated.

  The code: \<^verbatim>\<open>cond_protected_buffer_put\<close> on a new buffer of capacity 2, whatever the
  value \<open>d\<close> and whatever the other threads do, returns with \<open>d\<close> stored twice; the next
  two calls of remove both return \<open>d\<close>.
\<close>

theorem cond_put_stores_twice:
  "(case cond_protected_buffer_put env (cond_protected_buffer_init blk 2) d of
      None \<Rightarrow> False
    | Some b \<Rightarrow>
        cb_contents (buffer b) = [d, d] \<and>
        (let (d1, b1) = cond_protected_buffer_remove b;
             (d2, b2) = cond_protected_buffer_remove b1
         in d1 = d \<and> d2 = d \<and> cb_contents (buffer b2) = []))"
  by (cases env) (simp_all add: cond_buffer_defs cb_defs)

text \<open>
  C2. The claim: in the semaphore strategy a successful insert increments the full-slot
  semaphore, the exclusion semaphore never exceeds 1, and a value inserted by a successful
  add is observable by a following get or remove.

  The code: on a new buffer of capacity 1, \<^verbatim>\<open>sem_protected_buffer_add\<close> of a non-null
  value returns 1 and stores the value, and leaves \<^verbatim>\<open>s_full\<close> at 0 and \<^verbatim>\<open>s_m\<close> at
  2. The following remove returns \<^verbatim>\<open>NULL\<close> and changes nothing; the following get
  blocks.
\<close>

theorem sem_add_posts_mutex_twice:
  "(let (rc, b) = sem_protected_buffer_add (sem_protected_buffer_init blk 1) (Suc d)
    in rc = 1 \<and> cb_contents (buffer b) = [Suc d] \<and> s_full b = 0 \<and> s_m b = 2 \<and>
       sem_protected_buffer_remove b = (NULL, b) \<and> sem_protected_buffer_get b = None)"
  by (simp add: sem_buffer_defs sem_defs cb_defs)

text \<open>
  C3. The claim: in both strategies the non-blocking remove and the timed poll return the
  empty sentinel exactly when the buffer is empty (and add and offer fail exactly when it
  is full, and the buffer never holds more than its capacity).

  The code: after a successful \<^verbatim>\<open>sem_protected_buffer_add\<close> of a non-null value on a
  new buffer of capacity 2 the store holds one element, and both remove and poll (with any
  deadline) return \<^verbatim>\<open>NULL\<close>.
\<close>

theorem sem_remove_fails_on_nonempty:
  "(let (rc, b) = sem_protected_buffer_add (sem_protected_buffer_init blk 2) (Suc d)
    in rc = 1 \<and> cb_count (buffer b) = 1 \<and> cb_contents (buffer b) = [Suc d] \<and>
       fst (sem_protected_buffer_remove b) = NULL \<and>
       map_option fst (sem_protected_buffer_poll b abstime) = Some NULL)"
  by (simp add: sem_buffer_defs sem_defs cb_defs)

text \<open>
  C7. The claim: in the monitor strategy get and poll wait on the condition
  "slot became full", and every successful insert broadcasts "slot became full".

  The code: \<^verbatim>\<open>cond_protected_buffer_poll\<close> on an empty buffer waits on
  \<^verbatim>\<open>b->empty\<close>; \<^verbatim>\<open>cond_protected_buffer_offer\<close> on a buffer with a free slot stores
  the value, returns 1 and broadcasts \<^verbatim>\<open>b->empty\<close>, not \<^verbatim>\<open>b->full\<close>.
\<close>

theorem cond_poll_offer_wrong_condition:
  "calls (snd (cond_protected_buffer_poll [] now (cond_protected_buffer_init blk 1) abstime))
     = [Lock, Timedwait Empty, Unlock] \<and>
   (case cond_protected_buffer_offer env now (cond_protected_buffer_init blk 1) d abstime of
      (done, b) \<Rightarrow>
        done = 1 \<and> cb_contents (buffer b) = [d] \<and> calls b = [Lock, Broadcast Empty, Unlock])"
  by (cases env) (simp_all add: cond_buffer_defs cb_defs ETIMEDOUT_def)

lemma poll_loop_passed:
  "poll_loop env 0 now rc b =
     (let (d, r) = circular_buffer_get (buffer b)
      in if d = NULL
         then (d, ETIMEDOUT, b\<lparr>buffer := (case env of [] \<Rightarrow> r | w # _ \<Rightarrow> snd w),
                                calls := calls b @ [Timedwait Empty]\<rparr>)
         else (d, rc, b\<lparr>buffer := r\<rparr>))"
  by (cases env) (simp_all split: prod.splits)

lemma offer_loop_passed:
  "offer_loop env 0 now rc b d =
     (let (done, r) = circular_buffer_put (buffer b) d
      in if done = 0
         then (done, ETIMEDOUT, b\<lparr>buffer := (case env of [] \<Rightarrow> r | w # _ \<Rightarrow> snd w),
                                   calls := calls b @ [Timedwait Full]\<rparr>)
         else (done, rc, b\<lparr>buffer := r\<rparr>))"
  by (cases env) (simp_all split: prod.splits)

text \<open>
  C8. The claim: with a deadline that has passed, poll gives the result and the final state
  of the non-blocking remove, and offer those of add, in both strategies.

  The code: on a new semaphore buffer of capacity 1, with the deadline 0, offer returns 1
  and leaves the semaphores \<^verbatim>\<open>s_m\<close>, \<^verbatim>\<open>s_full\<close>, \<^verbatim>\<open>s_empty\<close> at 1, 1, 0; add returns
  1 and leaves them at 2, 0, 0. The rest of the claim holds on every buffer: the semaphore
  poll with the deadline 0 does what remove does, unless \<^verbatim>\<open>s_m\<close> is taken, where poll
  waits for it; with condition variables, poll and offer with the deadline 0 return what
  remove and add return, whatever the other threads do, and leave the same store when no
  other thread runs during the call.
\<close>

theorem sem_offer_differs_from_add:
  "(let b0 = sem_protected_buffer_init blk 1
    in map_option (\<lambda>(rc, b). (rc, s_m b, s_full b, s_empty b))
         (sem_protected_buffer_offer b0 d 0) = Some (1, 1, 1, 0) \<and>
       (\<lambda>(rc, b). (rc, s_m b, s_full b, s_empty b))
         (sem_protected_buffer_add b0 d) = (1, 2, 0, 0)) \<and>
   sem_protected_buffer_poll b 0 =
     (if 0 < s_full b \<and> s_m b = 0 then None else Some (sem_protected_buffer_remove b)) \<and>
   fst (cond_protected_buffer_poll env now b 0) = fst (cond_protected_buffer_remove b) \<and>
   buffer (snd (cond_protected_buffer_poll [] now b 0)) = buffer (snd (cond_protected_buffer_remove b)) \<and>
   fst (cond_protected_buffer_offer env now b d 0) = fst (cond_protected_buffer_add b d) \<and>
   buffer (snd (cond_protected_buffer_offer [] now b d 0)) = buffer (snd (cond_protected_buffer_add b d))"
proof (intro conjI)
  show "sem_protected_buffer_poll b 0 =
     (if 0 < s_full b \<and> s_m b = 0 then None else Some (sem_protected_buffer_remove b))"
    by (simp add: sem_protected_buffer_poll_def sem_protected_buffer_remove_def sem_defs
        split: prod.splits)
qed (simp_all add: sem_buffer_defs sem_defs cb_defs cond_protected_buffer_poll_def
      cond_protected_buffer_remove_def cond_protected_buffer_offer_def cond_protected_buffer_add_def
      poll_loop_passed offer_loop_passed Let_def split: prod.splits)

section \<open>The thread pool\<close>

text \<open>
  C6. The claim: the value \<^verbatim>\<open>pool_thread_remove\<close> returns is true exactly when the
  calling worker should stop; it is false for a core worker of a pool that is not
  shutting down.

  The code: \<^verbatim>\<open>pool_thread_remove\<close> returns 1 on every pool. On a pool of core size 1
  with one worker and no shutdown it returns 1 and leaves the size at 1.
\<close>

theorem pool_thread_remove_always_1:
  "fst (pool_thread_remove tp) = 1 \<and>
   pool_thread_remove
     \<lparr>core_pool_size = 1, max_pool_size = 2, size_tp = 1, shutdown = 0, pool_calls = []\<rparr>
   = (1, \<lparr>core_pool_size = 1, max_pool_size = 2, size_tp = 1, shutdown = 0,
          pool_calls = [Lock, Unlock]\<rparr>)"
  by (simp add: pool_thread_remove_def Let_def)

section \<open>The executor\<close>

subsection \<open>Periodic callables\<close>

lemma result_loop_blocks:
  "completed future = 0 \<Longrightarrow> \<forall>w\<in>set env. fst w = 0 \<Longrightarrow> result_loop env future = None"
  by (induction env arbitrary: future) simp_all

lemma inner_keeps_future:
  "period (callable future) \<noteq> 0 \<Longrightarrow>
   main_pool_thread_inner reads ts future = Some (future', ts') \<Longrightarrow>
   completed future' = completed future \<and> future_calls future' = future_calls future \<and>
   callable future' = callable future"
proof (induction reads arbitrary: ts future)
  case Nil
  then show ?case by simp
next
  case (Cons s reads)
  show ?case
  proof (cases "s = 0")
    case True
    let ?f1 = "future\<lparr>result := main (callable future) (params (callable future))\<rparr>"
    from Cons.prems True
    have run: "main_pool_thread_inner reads (ts + period (callable future)) ?f1 = Some (future', ts')"
      by (simp add: Let_def)
    have "period (callable ?f1) \<noteq> 0" using Cons.prems(1) by simp
    from Cons.IH [OF this run] show ?thesis by simp
  next
    case False
    with Cons.prems show ?thesis by (auto simp add: Let_def)
  qed
qed

lemma inner_stops:
  "period (callable future) \<noteq> 0 \<Longrightarrow> \<exists>s\<in>set reads. s \<noteq> 0 \<Longrightarrow>
   main_pool_thread_inner reads ts future \<noteq> None"
  by (induction reads arbitrary: ts future) (auto simp add: Let_def)

text \<open>
  C10. For a callable whose period is not 0 (in particular, greater than 0), whenever the
  inner loop of the worker ends, the future's \<^verbatim>\<open>completed\<close> flag is what it was and no
  call was made on the future's condition variable: no broadcast. The loop does end once
  \<^verbatim>\<open>get_shutdown\<close> returns a non-zero value. \<^verbatim>\<open>submit_callable\<close> sets the flag to
  0; then \<^verbatim>\<open>get_callable_result\<close> on the future never returns, whatever wake-ups the
  caller gets, as long as it finds the flag at 0.
\<close>

theorem periodic_future_never_completed:
  assumes "period (callable future) \<noteq> 0"
  shows "(\<forall>future' ts'. main_pool_thread_inner reads ts future = Some (future', ts') \<longrightarrow>
            completed future' = completed future \<and>
            future_calls future' = future_calls future \<and>
            (completed future = 0 \<longrightarrow>
              (\<forall>env. (\<forall>w\<in>set env. fst w = 0) \<longrightarrow> get_callable_result env future' = None))) \<and>
         ((\<exists>s\<in>set reads. s \<noteq> 0) \<longrightarrow> main_pool_thread_inner reads ts future \<noteq> None)"
proof (intro conjI allI impI)
  fix future' ts'
  assume run: "main_pool_thread_inner reads ts future = Some (future', ts')"
  from inner_keeps_future [OF assms run]
  show "completed future' = completed future" and "future_calls future' = future_calls future"
    by simp_all
next
  fix future' ts' and env :: "(int \<times> ptr) list"
  assume run: "main_pool_thread_inner reads ts future = Some (future', ts')"
    and c0: "completed future = 0" and env: "\<forall>w\<in>set env. fst w = 0"
  from inner_keeps_future [OF assms run] c0 have "completed future' = 0" by simp
  then have "result_loop env (future'\<lparr>future_calls := future_calls future' @ [Lock]\<rparr>) = None"
    using env by (intro result_loop_blocks) simp_all
  then show "get_callable_result env future' = None"
    by (simp add: get_callable_result_def)
next
  assume "\<exists>s\<in>set reads. s \<noteq> 0"
  with assms show "main_pool_thread_inner reads ts future \<noteq> None" by (rule inner_stops)
qed

text \<open>
  A callable of period 5 that adds 1 to its parameter 3: the flag is read as 0, then as 1.
  The loop runs twice and ends with the result 4, the deadline moved by 10, the flag and
  the calls untouched; \<^verbatim>\<open>get_callable_result\<close> then blocks.
\<close>

theorem periodic_future_never_completed_witness:
  "(let f = \<lparr>callable = \<lparr>main = (\<lambda>x. x + 1), params = 3, period = 5, executor = 1\<rparr>,
             completed = 0, result = 0, future_calls = []\<rparr>
    in period (callable f) \<noteq> 0 \<and> completed f = 0 \<and>
       main_pool_thread_inner [0, 1] 0 f = Some (f\<lparr>result := 4\<rparr>, 10) \<and>
       completed (f\<lparr>result := 4\<rparr>) = 0 \<and> future_calls (f\<lparr>result := 4\<rparr>) = [] \<and>
       get_callable_result [(0, 0)] (f\<lparr>result := 4\<rparr>) = None)"
  using periodic_future_never_completed [of
      "\<lparr>callable = \<lparr>main = (\<lambda>x. x + 1), params = 3, period = 5, executor = 1\<rparr>,
        completed = 0, result = 0, future_calls = []\<rparr>" "[0, 1]" 0]
  by (simp add: Let_def)

section \<open>The size of the thread pool\<close>












section \<open>The circular buffer as a queue\<close>

lemma length_cb_contents: "length (cb_contents b) = cb_count b"
  by (simp add: cb_contents_def)

lemma ring_index_distinct:
  fixes h i n c :: nat
  assumes "i < n" and "n < c"
  shows "(h + i) mod c \<noteq> (h + n) mod c"
proof
  assume "(h + i) mod c = (h + n) mod c"
  then have "(h + n) mod c = (h + i) mod c" by simp
  moreover have "h + i \<le> h + n" using assms by simp
  ultimately have "c dvd (h + n) - (h + i)" by (simp add: mod_eq_dvd_iff_nat)
  then have "c dvd n - i" by simp
  moreover have "0 < n - i" "n - i < c" using assms by simp_all
  ultimately show False by (simp add: nat_dvd_not_less)
qed

lemma circular_buffer_get_wf:
  assumes "cb_wf b" and "0 < cb_count b"
  shows "fst (circular_buffer_get b) = hd (cb_contents b) \<and>
         cb_contents (snd (circular_buffer_get b)) = tl (cb_contents b) \<and>
         cb_wf (snd (circular_buffer_get b))"
proof -
  let ?c = "cb_capacity b" and ?h = "cb_head b" and ?n = "cb_count b"
  let ?f = "\<lambda>i. cb_slots b ! ((?h + i) mod ?c)"
  from assms have c: "0 < ?c" "?h < ?c" "?n \<le> ?c" "cb_tail b = (?h + ?n) mod ?c"
    by (simp_all add: cb_wf_def)
  have upt: "[0..<?n] = 0 # map Suc [0..<?n - 1]"
    using assms(2) by (metis Suc_pred' map_Suc_upt upt_conv_Cons)
  have hd: "hd (cb_contents b) = cb_slots b ! ?h"
    unfolding cb_contents_def using c by (subst upt) simp
  have tl: "tl (cb_contents b) = map (\<lambda>i. ?f (Suc i)) [0..<?n - 1]"
    unfolding cb_contents_def by (subst upt) (simp add: comp_def)
  have shift: "((?h + 1) mod ?c + i) mod ?c = (?h + Suc i) mod ?c" for i
    by (simp add: mod_add_left_eq)
  have "cb_contents (snd (circular_buffer_get b)) = map (\<lambda>i. ?f (Suc i)) [0..<?n - 1]"
    using assms(2) shift by (simp add: circular_buffer_get_def cb_contents_def)
  moreover have "cb_wf (snd (circular_buffer_get b))"
    using assms c shift [of "?n - 1"] by (simp add: circular_buffer_get_def cb_wf_def)
  ultimately show ?thesis
    using assms(2) hd tl by (simp add: circular_buffer_get_def)
qed

lemma circular_buffer_put_wf:
  assumes "cb_wf b" and "cb_count b < cb_capacity b"
  shows "fst (circular_buffer_put b d) = 1 \<and>
         cb_contents (snd (circular_buffer_put b d)) = cb_contents b @ [d] \<and>
         cb_wf (snd (circular_buffer_put b d))"
proof -
  let ?c = "cb_capacity b" and ?h = "cb_head b" and ?n = "cb_count b"
  from assms have c: "0 < ?c" "?h < ?c" "length (cb_slots b) = ?c" "cb_tail b = (?h + ?n) mod ?c"
    by (simp_all add: cb_wf_def)
  have old: "(cb_slots b)[cb_tail b := d] ! ((?h + i) mod ?c) = cb_slots b ! ((?h + i) mod ?c)"
    if "i < ?n" for i
    using ring_index_distinct [OF that assms(2), of ?h] c by simp
  have new: "(cb_slots b)[cb_tail b := d] ! ((?h + ?n) mod ?c) = d"
    using c by simp
  have "cb_contents (snd (circular_buffer_put b d)) = cb_contents b @ [d]"
    using assms(2) old new by (simp add: circular_buffer_put_def cb_contents_def)
  moreover have "cb_wf (snd (circular_buffer_put b d))"
    using assms c by (simp add: circular_buffer_put_def cb_wf_def mod_Suc_eq)
  ultimately show ?thesis using assms(2) by (simp add: circular_buffer_put_def)
qed

lemma circular_buffer_init_wf: "0 < n \<Longrightarrow> cb_wf (circular_buffer_init n) \<and> cb_contents (circular_buffer_init n) = []"
  by (simp add: circular_buffer_init_def cb_wf_def cb_contents_def)

section \<open>Submission\<close>

lemma cb_contents_nonempty: "0 < cb_count b \<Longrightarrow> cb_contents b \<noteq> []"
  using length_cb_contents [of b] by auto

text \<open>The queue of a new executor is as \<open>queue_ok\<close> describes, whatever its capacity above 0.\<close>

lemma executor_init_queue_ok:
  "0 < n \<Longrightarrow> queue_ok \<lparr>exec = executor_init blk core mx k n, heap = h, threads = ths\<rparr>"
  by (simp add: queue_ok_def executor_init_def protected_buffer_init_def
      cond_protected_buffer_init_def circular_buffer_init_wf)

text \<open>
  What \<^verbatim>\<open>submit_callable\<close> does when \<^verbatim>\<open>malloc\<close> returns a non-null address \<open>a\<close> and
  the pending queue, of capacity above 0, is as the executor's own calls leave it. It
  returns a non-null address of an allocated future and allocates the new future at \<open>a\<close>.
  The future returned is scheduled when the pool size is below the core size, or the
  queue is not full, or the pool size is below the maximum size. When the pool size is
  not below the core size and the queue is full, it returns the oldest pending future,
  which leaves the queue, appends \<open>a\<close> to the queue, and starts a thread on the future
  returned only if the pool size is below the maximum size.
\<close>

lemma submit_callable_schedules:
  assumes a: "a \<noteq> NULL" and ok: "queue_ok p"
    and sub: "submit_callable e (a, blk) c p = (r, p')"
  shows "r \<noteq> NULL \<and> heap p' r \<noteq> None \<and> queue_ok p' \<and>
         heap p' a = Some (blk\<lparr>callable := c\<lparr>executor := e\<rparr>, completed := 0, future_calls := []\<rparr>) \<and>
         (size_tp (thread_pool (exec p)) < core_pool_size (thread_pool (exec p)) \<or>
          cb_count (buffer (futures (exec p))) < cb_capacity (buffer (futures (exec p))) \<or>
          size_tp (thread_pool (exec p)) < max_pool_size (thread_pool (exec p)) \<longrightarrow>
            scheduled p' r) \<and>
         (\<not> size_tp (thread_pool (exec p)) < core_pool_size (thread_pool (exec p)) \<and>
          cb_count (buffer (futures (exec p))) = cb_capacity (buffer (futures (exec p))) \<longrightarrow>
            r = hd (cb_contents (buffer (futures (exec p)))) \<and>
            cb_contents (buffer (futures (exec p'))) = tl (cb_contents (buffer (futures (exec p)))) @ [a] \<and>
            threads p' =
              (if size_tp (thread_pool (exec p)) < max_pool_size (thread_pool (exec p))
               then threads p @ [r] else threads p))"
proof -
  let ?tp = "thread_pool (exec p)" and ?q = "futures (exec p)"
  let ?f0 = "blk\<lparr>callable := c\<lparr>executor := e\<rparr>, completed := 0, future_calls := []\<rparr>"
  from ok have impl: "\<not> sem_impl ?q" and wf: "cb_wf (buffer ?q)"
    and els: "list_all (\<lambda>f. f \<noteq> NULL \<and> heap p f \<noteq> None) (cb_contents (buffer ?q))"
    by (simp_all add: queue_ok_def)
  have els': "list_all (\<lambda>f. f \<noteq> NULL \<and> ((heap p)(a \<mapsto> ?f0)) f \<noteq> None) (cb_contents (buffer ?q))"
    using els by (simp add: list_all_iff)
  from wf have le: "cb_count (buffer ?q) \<le> cb_capacity (buffer ?q)" by (simp add: cb_wf_def)
  consider (thread) "size_tp ?tp < core_pool_size ?tp"
    | (queued) "\<not> size_tp ?tp < core_pool_size ?tp" "cb_count (buffer ?q) < cb_capacity (buffer ?q)"
    | (full) "\<not> size_tp ?tp < core_pool_size ?tp" "cb_count (buffer ?q) = cb_capacity (buffer ?q)"
    using le by fastforce
  then show ?thesis
  proof cases
    case thread
    with sub have "r = a" and "heap p' = (heap p)(a \<mapsto> ?f0)" and "futures (exec p') = ?q"
      and "threads p' = threads p @ [a]"
      by (auto simp add: submit_callable_def pool_thread_create_def Let_def)
    with a thread impl wf els' show ?thesis by (simp add: queue_ok_def scheduled_def)
  next
    case queued
    note put = circular_buffer_put_wf [OF wf queued(2), of a]
    from sub queued impl put
    have "r = a" and "heap p' = (heap p)(a \<mapsto> ?f0)"
      and "futures (exec p') = ?q\<lparr>buffer := snd (circular_buffer_put (buffer ?q) a),
             calls := calls ?q @ [Lock, Broadcast Full, Unlock]\<rparr>"
      by (auto simp add: submit_callable_def pool_thread_create_def protected_buffer_add_def
          cond_protected_buffer_add_def Let_def split: prod.splits)
    with a queued impl put els' show ?thesis by (simp add: queue_ok_def scheduled_def)
  next
    case full
    from wf full(2) have pos: "0 < cb_count (buffer ?q)" by (simp add: cb_wf_def)
    have add0: "circular_buffer_put (buffer ?q) a = (0, buffer ?q)"
      using full(2) by (simp add: circular_buffer_put_def)
    note get = circular_buffer_get_wf [OF wf pos]
    let ?g = "circular_buffer_get (buffer ?q)"
    have ne: "cb_contents (buffer ?q) \<noteq> []" using pos by (rule cb_contents_nonempty)
    with els' have first: "fst ?g \<noteq> NULL" "((heap p)(a \<mapsto> ?f0)) (fst ?g) \<noteq> None"
      and rest: "list_all (\<lambda>f. f \<noteq> NULL \<and> ((heap p)(a \<mapsto> ?f0)) f \<noteq> None) (tl (cb_contents (buffer ?q)))"
      using get by (cases "cb_contents (buffer ?q)"; simp)+
    have room: "cb_count (snd ?g) < cb_capacity (snd ?g)"
      using pos le by (simp add: circular_buffer_get_def)
    from get have wfg: "cb_wf (snd ?g)" by simp
    note put = circular_buffer_put_wf [OF wfg room, of a]
    let ?tp1 = "?tp\<lparr>pool_calls := pool_calls ?tp @ [Lock, Unlock]\<rparr>"
    from sub full(1) impl add0 first(1)
    have res: "r = fst ?g" "heap p' = (heap p)(a \<mapsto> ?f0)"
      "buffer (futures (exec p')) = snd (circular_buffer_put (snd ?g) a)"
      "sem_impl (futures (exec p')) = False"
      "(thread_pool (exec p'), threads p') = snd (pool_thread_create ?tp1 (fst ?g) 1 (threads p))"
      by (auto simp add: submit_callable_def pool_thread_create_def protected_buffer_add_def
          protected_buffer_remove_def cond_protected_buffer_add_def cond_protected_buffer_remove_def
          Let_def split: prod.splits)
    from res(5) have pool:
      "threads p' = (if size_tp ?tp < max_pool_size ?tp then threads p @ [r] else threads p)"
      using full(1) res(1) by (auto simp add: pool_thread_create_def split: if_splits)
    have okp: "queue_ok p'"
      using res put rest a get by (simp add: queue_ok_def)
    have sch: "size_tp ?tp < max_pool_size ?tp \<longrightarrow> scheduled p' r"
      using pool by (simp add: scheduled_def)
    from res first get put okp pool sch full show ?thesis by simp
  qed
qed

text \<open>
  C4. The claim: every call of submit returns a non-null, usable Future, never an error; in
  the overload case it evicts the oldest pending Future, queues the new one in its place,
  attempts a forced worker creation for the evicted one and returns the evicted one.

  The code: \<^verbatim>\<open>submit_callable\<close> does not look at what the forced
  \<^verbatim>\<open>pool_thread_create\<close> returns, where it tests the result of the unforced one and of
  \<^verbatim>\<open>protected_buffer_add\<close>. Take \<^verbatim>\<open>executor_init(1, 1, k, 1)\<close> and submit three
  one-shot callables, allocated at 10, 11 and 12. The first call starts the one thread
  the pool allows, on 10; the second queues 11; the third evicts 11, queues 12, fails
  to start a thread and returns 11. The future 11 is then neither in the queue nor held
  by a thread: no worker will run it, its flag \<^verbatim>\<open>completed\<close> is 0, and
  \<^verbatim>\<open>get_callable_result\<close> on it does not return.
\<close>

theorem submit_callable_drops_evicted_future:
  "(let c = \<lparr>main = (\<lambda>x. x), params = 0, period = 0, executor = 0\<rparr>;
        fblk = \<lparr>callable = c, completed = 7, result = 0, future_calls = [Lock]\<rparr>;
        p0 = \<lparr>exec = executor_init xblk 1 1 k 1, heap = Map.empty, threads = []\<rparr>;
        (r1, p1) = submit_callable 1 (10, fblk) c p0;
        (r2, p2) = submit_callable 1 (11, fblk) c p1;
        (r3, p3) = submit_callable 1 (12, fblk) c p2
    in r1 = 10 \<and> r2 = 11 \<and> r3 = 11 \<and>
       threads p3 = [10] \<and> size_tp (thread_pool (exec p3)) = 1 \<and>
       cb_contents (buffer (futures (exec p3))) = [12] \<and>
       \<not> scheduled p3 r3 \<and>
       (case heap p3 r3 of
          None \<Rightarrow> False
        | Some f \<Rightarrow> completed f = 0 \<and> get_callable_result [] f = None))"
  by (simp add: scheduled_def cb_defs submit_callable_def executor_init_def
      thread_pool_init_def protected_buffer_init_def cond_protected_buffer_init_def
      pool_thread_create_def int32_def protected_buffer_add_def protected_buffer_remove_def
      cond_protected_buffer_add_def cond_protected_buffer_remove_def
      get_callable_result_def Let_def)

section \<open>Shutdown\<close>

lemma get_loop_not_NULL: "get_loop env b \<noteq> Some (NULL, b')"
  by (induction env arbitrary: b) (auto simp add: Let_def split: prod.splits)

lemma cond_get_not_NULL: "cond_protected_buffer_get env b \<noteq> Some (NULL, b')"
  using get_loop_not_NULL [of env]
  by (auto simp add: cond_protected_buffer_get_def split: option.splits)

lemma wait_loop_empty: "wait_loop env tp = Some tp' \<Longrightarrow> size_tp tp' = 0"
  by (induction env arbitrary: tp) (auto split: if_splits)

text \<open>
  C9. The claim: \<^verbatim>\<open>executor_shutdown\<close> unblocks the workers that are blocked on the
  queue of pending futures, for instance with one sentinel future for each, and returns
  once the pool is empty.

  The code: take an executor with keep-alive \<^verbatim>\<open>FOREVER\<close>, core size 1 and one worker,
  which is blocked in \<^verbatim>\<open>protected_buffer_get\<close> on the empty queue.
  \<^verbatim>\<open>executor_shutdown\<close> sets the flag and waits, and leaves the queue as it was:
  the worker is still blocked, and with no wake-up the wait does not end. On any executor
  and with any wake-ups, \<^verbatim>\<open>executor_shutdown\<close> returns only with the pool size at 0 and
  the queue unchanged. Besides, \<^verbatim>\<open>cond_protected_buffer_get\<close> never returns
  \<^verbatim>\<open>NULL\<close>, so a worker of such an executor never reaches \<^verbatim>\<open>pool_thread_remove\<close>.
\<close>

theorem executor_shutdown_leaves_workers_blocked:
  "(let x0 = executor_init blk 1 1 forever 1;
        x = x0\<lparr>thread_pool := fst (snd (pool_thread_create (thread_pool x0) a 0 []))\<rparr>;
        x' = x\<lparr>thread_pool := thread_pool_shutdown (thread_pool x)\<rparr>
    in size_tp (thread_pool x) = 1 \<and>
       main_pool_thread_fetch forever [] now x = None \<and>
       executor_shutdown [] x = None \<and>
       futures x' = futures x \<and>
       main_pool_thread_fetch forever [] now x' = None) \<and>
   (case executor_shutdown env y of
      None \<Rightarrow> True
    | Some y' \<Rightarrow> futures y' = futures y \<and> size_tp (thread_pool y') = 0) \<and>
   cond_protected_buffer_get wakeups b \<noteq> Some (NULL, b')"
proof (intro conjI)
  show "cond_protected_buffer_get wakeups b \<noteq> Some (NULL, b')"
    by (rule cond_get_not_NULL)
  show "case executor_shutdown env y of
      None \<Rightarrow> True
    | Some y' \<Rightarrow> futures y' = futures y \<and> size_tp (thread_pool y') = 0"
    using wait_loop_empty [of env]
    by (auto simp add: executor_shutdown_def wait_thread_pool_empty_def split: option.splits)
qed (simp_all add: executor_init_def thread_pool_init_def protected_buffer_init_def
      cond_protected_buffer_init_def pool_thread_create_def main_pool_thread_fetch_def
      protected_buffer_get_def cond_protected_buffer_get_def executor_shutdown_def
      wait_thread_pool_empty_def thread_pool_shutdown_def int32_def cb_defs Let_def)

end
